theory Spec2Isabelle
  imports Complex_Main
begin

section \<open>Data model\<close>

text \<open>
  The notebook \<^verbatim>\<open>GPU-Image-Classification.ipynb\<close> defines four pieces of code of its
  own: the device-selection cell, \<^verbatim>\<open>create_dataloaders\<close>, \<^verbatim>\<open>train_model\<close> and
  \<^verbatim>\<open>validate\<close>. Everything else is a call into the deep-learning library. The
  embedding follows the notebook's code line by line and takes the library's numeric
  functions (the network's forward pass, automatic differentiation, the optimizer's
  update rule) as parameters, so that every theorem holds for all of them. Of the model
  object, the mode, the parameters, their gradients and the device are kept; the
  exceptions modelled are those of the notebook's own expressions (division and modulo
  by zero) and of the accelerator queries, and the other library calls are taken to
  succeed.
\<close>

datatype mode = Training | Evaluation

datatype device = Cuda | Cpu

datatype error =
    ZeroDivisionError
  | ValueError
  | CudaError

section \<open>Floating-point values\<close>

text \<open>
  Scores and losses are floating-point numbers: a finite value, an infinity or NaN.
  Finite arithmetic is idealised as exact (no rounding, no overflow); the infinities and
  NaN behave as in IEEE 754: an operation on NaN gives NaN, \<open>\<infinity> - \<infinity>\<close> is NaN, and every
  comparison with NaN is false. Parameters and gradients stay lists of reals: no
  statement below depends on their values.
\<close>

datatype fval = Finite real | PosInf | NegInf | NaN

fun fadd :: "fval \<Rightarrow> fval \<Rightarrow> fval" where
  "fadd NaN y = NaN"
| "fadd x NaN = NaN"
| "fadd (Finite a) (Finite b) = Finite (a + b)"
| "fadd PosInf NegInf = NaN"
| "fadd NegInf PosInf = NaN"
| "fadd PosInf y = PosInf"
| "fadd x PosInf = PosInf"
| "fadd NegInf y = NegInf"
| "fadd x NegInf = NegInf"

fun fneg :: "fval \<Rightarrow> fval" where
  "fneg (Finite a) = Finite (- a)"
| "fneg PosInf = NegInf"
| "fneg NegInf = PosInf"
| "fneg NaN = NaN"

definition fsub :: "fval \<Rightarrow> fval \<Rightarrow> fval" where
  "fsub x y = fadd x (fneg y)"

fun fexp :: "fval \<Rightarrow> fval" where
  "fexp (Finite a) = Finite (exp a)"
| "fexp PosInf = PosInf"
| "fexp NegInf = Finite 0"
| "fexp NaN = NaN"

fun fln :: "fval \<Rightarrow> fval" where
  "fln (Finite a) = (if a < 0 then NaN else if a = 0 then NegInf else Finite (ln a))"
| "fln PosInf = PosInf"
| "fln NegInf = NaN"
| "fln NaN = NaN"

text \<open>Division by a count. The two divisions the notebook writes itself are Python's
  and raise on a zero count before this is reached.\<close>

fun fdiv_count :: "fval \<Rightarrow> nat \<Rightarrow> fval" where
  "fdiv_count (Finite a) n =
     (if n = 0 then (if a = 0 then NaN else if 0 < a then PosInf else NegInf)
      else Finite (a / real n))"
| "fdiv_count PosInf n = PosInf"
| "fdiv_count NegInf n = NegInf"
| "fdiv_count NaN n = NaN"

fun fle :: "fval \<Rightarrow> fval \<Rightarrow> bool" where
  "fle NaN y = False"
| "fle x NaN = False"
| "fle (Finite a) (Finite b) = (a \<le> b)"
| "fle NegInf y = True"
| "fle x PosInf = True"
| "fle PosInf y = False"
| "fle x NegInf = False"

definition flt :: "fval \<Rightarrow> fval \<Rightarrow> bool" where
  "flt x y \<longleftrightarrow> fle x y \<and> x \<noteq> y"

text \<open>The maximum of two values, NaN if either is.\<close>

fun fmax2 :: "fval \<Rightarrow> fval \<Rightarrow> fval" where
  "fmax2 NaN y = NaN"
| "fmax2 x NaN = NaN"
| "fmax2 x y = (if fle x y then y else x)"

definition fsum :: "fval list \<Rightarrow> fval" where
  "fsum xs = foldl fadd (Finite 0) xs"

definition fmax_list :: "fval list \<Rightarrow> fval" where
  "fmax_list xs = (case xs of [] \<Rightarrow> NegInf | x # rest \<Rightarrow> foldl fmax2 x rest)"


section \<open>Samples and batches\<close>

text \<open>A sample is an image with its integer label; a batch is the collated pair
  (stacked images, label vector).\<close>

type_synonym 'x sample = "'x \<times> nat"
type_synonym 'x batch = "'x list \<times> nat list"

section \<open>Batch iterator\<close>

text \<open>
  \<^verbatim>\<open>DataLoader(data, batch_size=batch_size, pin_memory=pin_memory)\<close>: the notebook
  passes neither \<^verbatim>\<open>shuffle\<close> nor \<^verbatim>\<open>drop_last\<close>, so the loader walks the dataset in
  index order and keeps the final, possibly shorter, batch.
\<close>

record 'x dataloader =
  dataset :: "'x sample list"
  batch_size :: int
  pin_memory :: bool

text \<open>Modelled from the spec: the library's batch iterator, which is not part of the
  notebook. Section 4.2: a finite, restartable sequence of batches in a fixed,
  non-shuffled traversal order covering every sample exactly once per pass, the last
  batch possibly shorter than the configured size. \<open>batches B xs\<close> cuts \<open>xs\<close> into
  consecutive runs of \<open>B\<close> items.\<close>

function batches :: "nat \<Rightarrow> 'a list \<Rightarrow> 'a list list" where
  "batches B xs = (if B = 0 \<or> xs = [] then [] else take B xs # batches B (drop B xs))"
  by pat_completeness auto
termination
  by (relation "measure (\<lambda>(B, xs). length xs)") auto

declare batches.simps [simp del]

text \<open>The library refuses a batch size that is not positive when the loader is built.\<close>

definition DataLoader :: "'x sample list \<Rightarrow> int \<Rightarrow> bool \<Rightarrow> error + 'x dataloader" where
  "DataLoader data bs pin =
     (if bs \<le> 0 then Inl ValueError
      else Inr \<lparr>dataset = data, batch_size = bs, pin_memory = pin\<rparr>)"

definition collate :: "'x sample list \<Rightarrow> 'x batch" where
  "collate b = (map fst b, map snd b)"

text \<open>One full pass over a loader: \<^verbatim>\<open>for idx, (images, labels) in enumerate(dl)\<close>.\<close>

definition iterate :: "'x dataloader \<Rightarrow> 'x batch list" where
  "iterate dl = map collate (batches (nat (batch_size dl)) (dataset dl))"

definition create_dataloaders ::
  "'x sample list \<Rightarrow> 'x sample list \<Rightarrow> int \<Rightarrow> bool \<Rightarrow> error + ('x dataloader \<times> 'x dataloader)" where
  "create_dataloaders train_data test_data bs pin =
     (case DataLoader train_data bs pin of
        Inl e \<Rightarrow> Inl e
      | Inr train_dl \<Rightarrow>
          (case DataLoader test_data bs pin of
             Inl e \<Rightarrow> Inl e
           | Inr test_dl \<Rightarrow> Inr (train_dl, test_dl)))"

text \<open>The samples a pass delivers, batch by batch, read back out of the collated form.\<close>

definition samples_of :: "'x batch \<Rightarrow> 'x sample list" where
  "samples_of b = zip (fst b) (snd b)"

section \<open>The library and the machine\<close>

text \<open>
  What the notebook calls but does not define. The accelerator queries return \<open>None\<close>
  where the call raises on this machine; the numeric functions are arbitrary.
  \<^item> \<open>forward m p xs\<close>: \<^verbatim>\<open>model(images)\<close>, one row of class scores per image, computed
    in mode \<open>m\<close> from the parameters \<open>p\<close>;
  \<^item> \<open>gradient c m p xs ys\<close>: what \<^verbatim>\<open>loss.backward()\<close> contributes to the parameters'
    gradients for \<^verbatim>\<open>loss = criterion(model(images), labels)\<close>;
  \<^item> \<open>Adam p lr\<close>: the optimizer's initial state; \<open>Adam_step\<close>: one update of the
    parameters from their gradients, with the optimizer's new internal state.
\<close>

record ('x, 'o) torch =
  cuda_is_available :: bool
  cuda_get_device_name :: "string option"
  cuda_memory_allocated :: "nat option"
  cuda_memory_reserved :: "nat option"
  forward :: "mode \<Rightarrow> real list \<Rightarrow> 'x list \<Rightarrow> fval list list"
  gradient :: "(fval list list \<Rightarrow> nat list \<Rightarrow> fval) \<Rightarrow> mode \<Rightarrow> real list \<Rightarrow> 'x list \<Rightarrow> nat list
                 \<Rightarrow> real list"
  Adam :: "real list \<Rightarrow> real \<Rightarrow> 'o"
  Adam_step :: "'o \<Rightarrow> real list \<Rightarrow> real list \<Rightarrow> 'o \<times> real list"

text \<open>What a \<^verbatim>\<open>print\<close> call writes (the number formatting is left out).\<close>

datatype line =
    Device_line device
  | Blank_line
  | Name_line string
  | Memory_usage_line
  | Allocated_line nat
  | Cached_line nat
  | Iter_line int fval fval real

text \<open>The effects of a run, in the order they happen. \<open>Compute_scores m\<close> is a forward
  pass executed while the model is in mode \<open>m\<close>. The three \<open>Cuda_\<close> events are calls
  into \<^verbatim>\<open>torch.cuda\<close>.\<close>

datatype event =
    Model_train
  | Model_eval
  | Model_to device
  | Compute_scores mode
  | Compute_loss
  | Zero_grad
  | Backward
  | Optimizer_step
  | Cuda_get_device_name
  | Cuda_memory_allocated
  | Cuda_memory_reserved
  | Print line

text \<open>The model object, which the notebook mutates in place, together with the trace of
  effects so far. \<open>grad\<close> holds the parameters' accumulated gradients.\<close>

record state =
  mode :: mode
  parameters :: "real list"
  grad :: "real list"
  placement :: device
  trace :: "event list"

section \<open>Device selection\<close>

text \<open>\<^verbatim>\<open>device = torch.device('cuda' if torch.cuda.is_available() else 'cpu')\<close>\<close>

definition select_device :: "('x, 'o) torch \<Rightarrow> device" where
  "select_device T = (if cuda_is_available T then Cuda else Cpu)"


section \<open>Loss function\<close>

text \<open>Modelled from the spec: the library's loss \<^verbatim>\<open>nn.CrossEntropyLoss()\<close>, which is not
  part of the notebook. Section 4.4: given (N, C) scores and N integer labels, the
  per-sample negative log-likelihood of the correct class under a softmax
  interpretation of the scores, aggregated to a per-sample-averaged scalar. The
  log-likelihood is evaluated on the scores shifted by their maximum, which is the same
  number on finite scores and decides what non-finite scores give.\<close>

definition nll :: "fval list \<Rightarrow> nat \<Rightarrow> fval" where
  "nll scores y =
     (let m = fmax_list scores;
          shifted = map (\<lambda>x. fsub x m) scores
      in fsub (fln (fsum (map fexp shifted))) (shifted ! y))"

definition CrossEntropyLoss :: "fval list list \<Rightarrow> nat list \<Rightarrow> fval" where
  "CrossEntropyLoss preds labels =
     fdiv_count (fsum (map (\<lambda>(scores, y). nll scores y) (zip preds labels))) (length labels)"

section \<open>Validation\<close>

text \<open>\<^verbatim>\<open>preds.argmax(dim=1)\<close> on one row: the index of the first largest score, a NaN
  counting as larger than every number. (On a row of no scores the library raises;
  like the other library errors this is left out, and the value there is not used.)\<close>

definition greater_or_nan :: "fval \<Rightarrow> fval \<Rightarrow> bool" where
  "greater_or_nan x v = (case x of NaN \<Rightarrow> v \<noteq> NaN | _ \<Rightarrow> flt v x)"

fun argmax_from :: "nat \<Rightarrow> nat \<Rightarrow> fval \<Rightarrow> fval list \<Rightarrow> nat" where
  "argmax_from i best v [] = best"
| "argmax_from i best v (x # xs) =
     (if greater_or_nan x v then argmax_from (Suc i) i x xs
      else argmax_from (Suc i) best v xs)"

definition argmax :: "fval list \<Rightarrow> nat" where
  "argmax row = (case row of [] \<Rightarrow> 0 | x # xs \<Rightarrow> argmax_from 1 0 x xs)"

text \<open>\<^verbatim>\<open>(labels==preds_nonprob).sum().item()\<close>\<close>

definition count_equal :: "nat list \<Rightarrow> nat list \<Rightarrow> nat" where
  "count_equal labels preds_nonprob =
     length (filter (\<lambda>(y, p). y = p) (zip labels preds_nonprob))"

text \<open>The body of the loop of \<^verbatim>\<open>validate\<close>, on the running
  \<open>(loss, N, N_correct)\<close> and the model.\<close>

definition validate_batch ::
  "('x, 'o) torch \<Rightarrow> (fval list list \<Rightarrow> nat list \<Rightarrow> fval) \<Rightarrow> 'x batch
     \<Rightarrow> fval \<times> nat \<times> nat \<times> state \<Rightarrow> fval \<times> nat \<times> nat \<times> state" where
  "validate_batch T criterion b acc =
     (case (b, acc) of ((images, labels), (loss, N, N_correct, s)) \<Rightarrow>
        (let preds = forward T (mode s) (parameters s) images;
             preds_nonprob = map argmax preds;
             N_correct' = N_correct + count_equal labels preds_nonprob;
             loss' = fadd loss (criterion preds labels);
             N' = N + length labels
         in (loss', N', N_correct',
             s\<lparr>trace := trace s @ [Compute_scores (mode s), Compute_loss]\<rparr>)))"

text \<open>
  \<^verbatim>\<open>validate(test_dl, model, criterion)\<close>. The result is the returned pair
  \<^verbatim>\<open>(loss / N, N_correct/N)\<close> or the exception raised, and the model object afterwards
  (mutated in place, so it is there in both cases). The accelerator query of the
  \<^verbatim>\<open>print('Cached: ', ...)\<close> line is made on every call. With no batch, both
  \<^verbatim>\<open>loss\<close> and \<^verbatim>\<open>N\<close> are still the integer 0 and the division raises.
\<close>

definition validate ::
  "('x, 'o) torch \<Rightarrow> 'x dataloader \<Rightarrow> state \<Rightarrow> (fval list list \<Rightarrow> nat list \<Rightarrow> fval)
     \<Rightarrow> (error + fval \<times> real) \<times> state" where
  "validate T test_dl s criterion =
     (let s1 = s\<lparr>mode := Evaluation, trace := trace s @ [Model_eval]\<rparr> in
      case cuda_memory_reserved T of
        None \<Rightarrow> (Inl CudaError, s1\<lparr>trace := trace s1 @ [Cuda_memory_reserved]\<rparr>)
      | Some r \<Rightarrow>
          (let s2 = s1\<lparr>trace := trace s1 @ [Cuda_memory_reserved, Print (Cached_line r)]\<rparr>;
               (loss, N, N_correct, s3) =
                  fold (validate_batch T criterion) (iterate test_dl) (Finite 0, 0, 0, s2)
           in if N = 0 then (Inl ZeroDivisionError, s3)
              else (Inr (fdiv_count loss N, real N_correct / real N), s3)))"

section \<open>Training\<close>

text \<open>\<^verbatim>\<open>optimizer.zero_grad()\<close>, \<^verbatim>\<open>loss.backward()\<close>, \<^verbatim>\<open>optimizer.step()\<close>. A gradient
  has the shape of its parameter; backpropagation adds to what is accumulated.\<close>

definition zero_grad :: "state \<Rightarrow> state" where
  "zero_grad s = s\<lparr>grad := replicate (length (parameters s)) 0,
                   trace := trace s @ [Zero_grad]\<rparr>"

definition backward :: "real list \<Rightarrow> state \<Rightarrow> state" where
  "backward g s = s\<lparr>grad := map2 (+) (grad s) g, trace := trace s @ [Backward]\<rparr>"

definition step :: "('x, 'o) torch \<Rightarrow> 'o \<times> state \<Rightarrow> 'o \<times> state" where
  "step T os =
     (case os of (opt, s) \<Rightarrow>
        (let (opt', p') = Adam_step T opt (parameters s) (grad s)
         in (opt', s\<lparr>parameters := p', trace := trace s @ [Optimizer_step]\<rparr>)))"

text \<open>The body of the batch loop of \<^verbatim>\<open>train_model\<close>, on the model, the optimizer and
  the running \<open>(curr_loss, N)\<close>.\<close>

definition train_batch ::
  "('x, 'o) torch \<Rightarrow> (fval list list \<Rightarrow> nat list \<Rightarrow> fval) \<Rightarrow> 'x batch
     \<Rightarrow> state \<times> 'o \<times> fval \<times> nat \<Rightarrow> state \<times> 'o \<times> fval \<times> nat" where
  "train_batch T criterion b acc =
     (case (b, acc) of ((images, labels), (s, opt, curr_loss, N)) \<Rightarrow>
        (let preds = forward T (mode s) (parameters s) images;
             loss = criterion preds labels;
             s1 = s\<lparr>trace := trace s @ [Compute_scores (mode s), Compute_loss]\<rparr>;
             curr_loss' = fadd curr_loss loss;
             N' = N + length labels;
             g = gradient T criterion (mode s) (parameters s) images labels;
             s2 = zero_grad s1;
             s3 = backward g s2;
             (opt', s4) = step T (opt, s3)
         in (s4, opt', curr_loss', N')))"

text \<open>\<^verbatim>\<open>range(N_epochs)\<close>\<close>

definition py_range :: "int \<Rightarrow> int list" where
  "py_range n = map int [0..<nat n]"

text \<open>
  The epoch loop of \<^verbatim>\<open>train_model\<close> over the epochs still to run. \<^verbatim>\<open>epoch % print_freq\<close>
  raises when \<^verbatim>\<open>print_freq\<close> is 0; the f-string's \<^verbatim>\<open>curr_loss / N\<close> raises when the
  epoch saw no batch, after the two records were written.
\<close>

fun epoch_loop ::
  "('x, 'o) torch \<Rightarrow> 'x dataloader \<Rightarrow> 'x dataloader \<Rightarrow> (fval list list \<Rightarrow> nat list \<Rightarrow> fval)
     \<Rightarrow> int \<Rightarrow> int \<Rightarrow> int list \<Rightarrow> (int \<rightharpoonup> real) \<times> (int \<rightharpoonup> fval) \<times> 'o \<times> state
     \<Rightarrow> (error + (int \<rightharpoonup> real) \<times> (int \<rightharpoonup> fval)) \<times> state" where
  "epoch_loop T train_dl test_dl criterion N_epochs print_freq [] (acc_dict, loss_dict, opt, s) =
     (Inr (acc_dict, loss_dict), s)"
| "epoch_loop T train_dl test_dl criterion N_epochs print_freq (epoch # rest)
     (acc_dict, loss_dict, opt, s) =
     (let (s1, opt1, curr_loss, N) =
            fold (train_batch T criterion) (iterate train_dl) (s, opt, Finite 0, 0)
      in if print_freq = 0 then (Inl ZeroDivisionError, s1)
         else if epoch mod print_freq = 0 \<or> epoch = N_epochs - 1 then
           (case validate T test_dl s1 criterion of
              (Inl e, s2) \<Rightarrow> (Inl e, s2)
            | (Inr (val_loss, val_acc), s2) \<Rightarrow>
                if N = 0 then (Inl ZeroDivisionError, s2)
                else epoch_loop T train_dl test_dl criterion N_epochs print_freq rest
                       (acc_dict(epoch \<mapsto> val_acc), loss_dict(epoch \<mapsto> val_loss), opt1,
                        s2\<lparr>trace := trace s2 @
                              [Print (Iter_line epoch (fdiv_count curr_loss N) val_loss val_acc)]\<rparr>))
         else epoch_loop T train_dl test_dl criterion N_epochs print_freq rest
                (acc_dict, loss_dict, opt1, s1))"

text \<open>
  \<^verbatim>\<open>train_model(train_dl, test_dl, model, criterion, N_epochs, print_freq, lr)\<close>: the
  returned \<^verbatim>\<open>(acc_dict, loss_dict)\<close> or the exception raised, and the model object
  afterwards, which is the model the function returns.
\<close>

definition train_model ::
  "('x, 'o) torch \<Rightarrow> 'x dataloader \<Rightarrow> 'x dataloader \<Rightarrow> state \<Rightarrow> (fval list list \<Rightarrow> nat list \<Rightarrow> fval)
     \<Rightarrow> int \<Rightarrow> int \<Rightarrow> real \<Rightarrow> (error + (int \<rightharpoonup> real) \<times> (int \<rightharpoonup> fval)) \<times> state" where
  "train_model T train_dl test_dl s criterion N_epochs print_freq lr =
     (let s1 = s\<lparr>mode := Training, trace := trace s @ [Model_train]\<rparr>;
          s2 = s1\<lparr>placement := select_device T,
                  trace := trace s1 @ [Model_to (select_device T)]\<rparr>;
          optimizer = Adam T (parameters s2) lr
      in epoch_loop T train_dl test_dl criterion N_epochs print_freq (py_range N_epochs)
           (Map.empty, Map.empty, optimizer, s2))"

section \<open>The quantity the specification names\<close>

text \<open>The mean per-sample loss over one full pass in the specification's words: the sum
  of the per-sample negative log-likelihood losses of all held-out samples, divided by
  the number of held-out samples. It is stated next to \<open>validate\<close> to compare the two.\<close>

definition mean_per_sample_loss ::
  "('x, 'o) torch \<Rightarrow> 'x dataloader \<Rightarrow> state \<Rightarrow> fval" where
  "mean_per_sample_loss T test_dl s =
     fdiv_count
       (fsum (concat (map (\<lambda>(images, labels).
                map (\<lambda>(scores, y). nll scores y)
                  (zip (forward T Evaluation (parameters s) images) labels))
              (iterate test_dl))))
       (length (dataset test_dl))"

section \<open>Concrete machines, models and datasets\<close>

text \<open>
  Machines for evaluating the definitions on concrete runs. The first two score every
  image \<open>[0, 0]\<close> over two classes, have the constant gradient 1 and subtract the
  gradient in the optimizer step. \<open>cpu_machine\<close> has no accelerator; its memory queries
  answer 0 and the device-name query, which the notebook makes on an accelerator only,
  raises. \<open>gpu_machine\<close> answers as the notebook's recorded output does (a Tesla T4
  with nothing allocated or reserved). \<open>nan_machine\<close> is \<open>gpu_machine\<close> with a network
  whose scores are all NaN.
\<close>

definition cpu_machine :: "(nat, unit) torch" where
  "cpu_machine =
     \<lparr>cuda_is_available = False,
      cuda_get_device_name = None,
      cuda_memory_allocated = Some 0,
      cuda_memory_reserved = Some 0,
      forward = (\<lambda>m p xs. map (\<lambda>x. [Finite 0, Finite 0]) xs),
      gradient = (\<lambda>c m p xs ys. map (\<lambda>w. 1) p),
      Adam = (\<lambda>p lr. ()),
      Adam_step = (\<lambda>opt p g. ((), map2 (-) p g))\<rparr>"

definition gpu_machine :: "(nat, unit) torch" where
  "gpu_machine =
     cpu_machine\<lparr>cuda_is_available := True,
                 cuda_get_device_name := Some ''Tesla T4'',
                 cuda_memory_allocated := Some 0,
                 cuda_memory_reserved := Some 0\<rparr>"


text \<open>A newly built model is in training mode, on the general-purpose processor.\<close>

definition fresh_model :: state where
  "fresh_model = \<lparr>mode = Training, parameters = [1], grad = [0], placement = Cpu, trace = []\<rparr>"

text \<open>Two samples (images 0 and 1, labels 0 and 1) served as one batch of two.\<close>

definition two_samples :: "nat dataloader" where
  "two_samples = \<lparr>dataset = [(0, 0), (1, 1)], batch_size = 2, pin_memory = True\<rparr>"


section \<open>Properties of the batch iterator\<close>

lemma batches_Nil [simp]: "batches B [] = []"
  by (simp add: batches.simps)

lemma batches_zero [simp]: "batches 0 xs = []"
  by (simp add: batches.simps)

lemma batches_step: "0 < B \<Longrightarrow> xs \<noteq> [] \<Longrightarrow> batches B xs = take B xs # batches B (drop B xs)"
  by (subst batches.simps) simp

lemma concat_batches: "0 < B \<Longrightarrow> concat (batches B xs) = xs"
proof (induction B xs rule: batches.induct)
  case (1 B xs)
  show ?case
  proof (cases "xs = []")
    case True
    then show ?thesis by simp
  next
    case False
    with 1 show ?thesis by (simp add: batches_step)
  qed
qed

lemma ceil_div_step:
  fixes B n :: nat
  assumes B: "0 < B" and le: "B \<le> n"
  shows "(n + B - 1) div B = Suc ((n - B + B - 1) div B)"
proof -
  obtain k where n: "n = B + k" using le le_Suc_ex by blast
  have "n + B - 1 = B + (k + B - 1)" using B n by simp
  then have "(n + B - 1) div B = Suc ((k + B - 1) div B)"
    using B by (simp only: div_add_self1)
  then show ?thesis using n by simp
qed

lemma ceil_div_small:
  fixes B n :: nat
  assumes n: "0 < n" and lt: "n < B"
  shows "(n + B - 1) div B = 1"
proof -
  have "n + B - 1 = B + (n - 1)" using n by simp
  then have "(n + B - 1) div B = Suc ((n - 1) div B)"
    using lt by (simp only: div_add_self1)
  then show ?thesis using lt by simp
qed

lemma length_batches: "0 < B \<Longrightarrow> length (batches B xs) = (length xs + B - 1) div B"
proof (induction B xs rule: batches.induct)
  case (1 B xs)
  show ?case
  proof (cases "xs = []")
    case True
    with 1(2) show ?thesis by simp
  next
    case False
    then have pos: "0 < length xs" by simp
    have ih: "length (batches B (drop B xs)) = (length xs - B + B - 1) div B"
      using 1 False by simp
    have step: "length (batches B xs) = Suc (length (batches B (drop B xs)))"
      using False 1(2) by (simp add: batches_step)
    show ?thesis
    proof (cases "B \<le> length xs")
      case True
      then show ?thesis
        using ih step ceil_div_step [OF 1(2) True] by simp
    next
      case small: False
      then have "drop B xs = []" by simp
      then show ?thesis
        using step ceil_div_small [OF pos, of B] small by simp
    qed
  qed
qed

lemma batches_nonempty: "b \<in> set (batches B xs) \<Longrightarrow> b \<noteq> []"
proof (induction B xs rule: batches.induct)
  case (1 B xs)
  show ?case
  proof (cases "B = 0 \<or> xs = []")
    case True
    with 1(2) show ?thesis by auto
  next
    case False
    with 1 show ?thesis by (auto simp: batches_step)
  qed
qed

lemma batches_length_le: "b \<in> set (batches B xs) \<Longrightarrow> length b \<le> B"
proof (induction B xs rule: batches.induct)
  case (1 B xs)
  show ?case
  proof (cases "B = 0 \<or> xs = []")
    case True
    with 1(2) show ?thesis by auto
  next
    case False
    with 1 show ?thesis by (auto simp: batches_step)
  qed
qed

lemma batches_butlast_full: "b \<in> set (butlast (batches B xs)) \<Longrightarrow> length b = B"
proof (induction B xs rule: batches.induct)
  case (1 B xs)
  show ?case
  proof (cases "B = 0 \<or> xs = []")
    case True
    with 1(2) show ?thesis by auto
  next
    case False
    then have step: "batches B xs = take B xs # batches B (drop B xs)"
      by (simp add: batches_step)
    show ?thesis
    proof (cases "batches B (drop B xs) = []")
      case True
      with 1(2) step show ?thesis by simp
    next
      case rest: False
      then have "drop B xs \<noteq> []" by auto
      then have "B \<le> length xs" by simp
      with 1 False step rest show ?thesis by auto
    qed
  qed
qed

lemma samples_of_collate [simp]: "samples_of (collate b) = b"
  by (simp add: samples_of_def collate_def zip_map_fst_snd)

lemma concat_samples_iterate:
  "0 < batch_size dl \<Longrightarrow> concat (map samples_of (iterate dl)) = dataset dl"
  by (simp add: iterate_def comp_def concat_batches)

lemma ceil_div_nat:
  fixes S B :: nat
  assumes B: "0 < B"
  shows "(S + B - 1) div B = nat \<lceil>real S / real B\<rceil>"
proof -
  define q where "q = (S + B - 1) div B"
  have lo: "q * B \<le> S + B - 1" unfolding q_def by simp
  have hi: "S + B - 1 < (q + 1) * B" unfolding q_def
    using B by (metis Suc_eq_plus1 dividend_less_div_times mult.commute add.commute mult_Suc)
  have up: "S \<le> q * B" using hi B by (cases S) (auto)
  have dn: "int q * int B - int B < int S"
  proof -
    from lo B have "int (q * B) \<le> int S + int B - 1" by linarith
    then show ?thesis by simp
  qed
  have "\<lceil>real S / real B\<rceil> = int q"
  proof (rule ceiling_unique)
    show "real_of_int (int q) - 1 < real S / real B"
    proof -
      have "(real q - 1) * real B < real S"
        using dn by (metis (mono_tags, opaque_lifting) left_diff_distrib mult_1 of_int_diff of_int_less_iff of_int_mult of_int_of_nat_eq)
      then show ?thesis using B by (simp add: pos_less_divide_eq)
    qed
    show "real S / real B \<le> real_of_int (int q)"
    proof -
      have "real S \<le> real q * real B" using up by (metis of_nat_le_iff of_nat_mult)
      then show ?thesis using B by (simp add: pos_divide_le_eq)
    qed
  qed
  then show ?thesis by (simp add: q_def)
qed

lemma length_snd_collate [simp]: "length (snd (collate b)) = length b" "length (fst (collate b)) = length b"
  by (simp_all add: collate_def)




lemma DataLoader_ok:
  "1 \<le> B \<Longrightarrow> DataLoader data B pin = Inr \<lparr>dataset = data, batch_size = B, pin_memory = pin\<rparr>"
  by (simp add: DataLoader_def)

lemma iterate_pass:
  assumes B: "0 < batch_size dl"
  shows "length (iterate dl) = nat \<lceil>real (length (dataset dl)) / real_of_int (batch_size dl)\<rceil>"
    and "concat (map samples_of (iterate dl)) = dataset dl"
    and "\<forall>b\<in>set (butlast (iterate dl)). length (snd b) = nat (batch_size dl)"
    and "\<forall>b\<in>set (iterate dl). 0 < length (snd b) \<and> length (snd b) \<le> nat (batch_size dl)"
proof -
  have nB: "0 < nat (batch_size dl)" using B by simp
  have "real (nat (batch_size dl)) = real_of_int (batch_size dl)" using B by simp
  then show "length (iterate dl) = nat \<lceil>real (length (dataset dl)) / real_of_int (batch_size dl)\<rceil>"
    using ceil_div_nat [OF nB, of "length (dataset dl)"] nB
    by (simp add: iterate_def length_batches)
  show "concat (map samples_of (iterate dl)) = dataset dl"
    using B by (rule concat_samples_iterate)
  have "butlast (iterate dl) = map collate (butlast (batches (nat (batch_size dl)) (dataset dl)))"
    by (simp add: iterate_def map_butlast)
  then show "\<forall>b\<in>set (butlast (iterate dl)). length (snd b) = nat (batch_size dl)"
    by (auto simp: batches_butlast_full)
  show "\<forall>b\<in>set (iterate dl). 0 < length (snd b) \<and> length (snd b) \<le> nat (batch_size dl)"
  proof
    fix b assume "b \<in> set (iterate dl)"
    then obtain c where c: "c \<in> set (batches (nat (batch_size dl)) (dataset dl))" "b = collate c"
      by (auto simp: iterate_def)
    from batches_nonempty [OF c(1)] batches_length_le [OF c(1)] c(2)
    show "0 < length (snd b) \<and> length (snd b) \<le> nat (batch_size dl)" by simp
  qed
qed

section \<open>Properties of the floating-point values and of the loss function\<close>

lemma fadd_zero_left [simp]: "fadd (Finite 0) x = x"
  by (cases x) simp_all













section \<open>Properties of validation\<close>

lemma validate_batch_pair:
  "validate_batch T c (images, labels) (l, n, k, s) =
     (fadd l (c (forward T (mode s) (parameters s) images) labels),
      n + length labels,
      k + count_equal labels (map argmax (forward T (mode s) (parameters s) images)),
      s\<lparr>trace := trace s @ [Compute_scores (mode s), Compute_loss]\<rparr>)"
  by (simp add: validate_batch_def Let_def)

lemma fold_validate_batch_frame:
  "fold (validate_batch T c) bs (l, n, k, s) = (l', n', k', s') \<Longrightarrow>
     mode s' = mode s \<and> parameters s' = parameters s \<and> grad s' = grad s \<and>
     placement s' = placement s"
proof (induction bs arbitrary: l n k s)
  case Nil
  then show ?case by simp
next
  case (Cons b bs)
  obtain images labels where b: "b = (images, labels)" by (cases b)
  from Cons.prems show ?case
    unfolding b fold_simps validate_batch_pair
    by (auto dest!: Cons.IH)
qed

lemma fold_validate_batch_trace:
  "fold (validate_batch T c) bs (l, n, k, s) = (l', n', k', s') \<Longrightarrow>
     trace s' = trace s @ concat (map (\<lambda>b. [Compute_scores (mode s), Compute_loss]) bs)"
proof (induction bs arbitrary: l n k s)
  case Nil
  then show ?case by simp
next
  case (Cons b bs)
  obtain images labels where b: "b = (images, labels)" by (cases b)
  from Cons.prems show ?case
    unfolding b fold_simps validate_batch_pair
    by (auto dest!: Cons.IH)
qed




lemma validate_raises:
  "cuda_memory_reserved T = None \<Longrightarrow>
     validate T dl s c =
       (Inl CudaError, s\<lparr>mode := Evaluation, trace := trace s @ [Model_eval, Cuda_memory_reserved]\<rparr>)"
  by (simp add: validate_def)

lemma validate_state:
  "mode (snd (validate T dl s c)) = Evaluation \<and>
   parameters (snd (validate T dl s c)) = parameters s \<and>
   grad (snd (validate T dl s c)) = grad s \<and>
   placement (snd (validate T dl s c)) = placement s"
proof (cases "cuda_memory_reserved T")
  case None
  then show ?thesis by (simp add: validate_raises)
next
  case (Some r)
  define s2 where "s2 = s\<lparr>mode := Evaluation,
    trace := trace s @ [Model_eval, Cuda_memory_reserved, Print (Cached_line r)]\<rparr>"
  obtain l n k s3 where f: "fold (validate_batch T c) (iterate dl) (Finite 0, 0, 0, s2) = (l, n, k, s3)"
    by (cases "fold (validate_batch T c) (iterate dl) (Finite 0, 0, 0, s2)") auto
  have "snd (validate T dl s c) = s3"
    using Some f by (simp add: validate_def s2_def)
  with fold_validate_batch_frame [OF f] show ?thesis by (simp add: s2_def)
qed



lemma validate_trace:
  "trace (snd (validate T dl s c)) =
     trace s @ [Model_eval, Cuda_memory_reserved] @
       (case cuda_memory_reserved T of
          None \<Rightarrow> []
        | Some r \<Rightarrow> Print (Cached_line r) #
            concat (map (\<lambda>b. [Compute_scores Evaluation, Compute_loss]) (iterate dl)))"
proof (cases "cuda_memory_reserved T")
  case None
  then show ?thesis by (simp add: validate_raises)
next
  case (Some r)
  define s2 where "s2 = s\<lparr>mode := Evaluation,
    trace := trace s @ [Model_eval, Cuda_memory_reserved, Print (Cached_line r)]\<rparr>"
  obtain l n k s3 where f: "fold (validate_batch T c) (iterate dl) (Finite 0, 0, 0, s2) = (l, n, k, s3)"
    by (cases "fold (validate_batch T c) (iterate dl) (Finite 0, 0, 0, s2)") auto
  have "snd (validate T dl s c) = s3"
    using Some f by (simp add: validate_def s2_def)
  with fold_validate_batch_trace [OF f] Some show ?thesis by (simp add: s2_def)
qed

lemma validate_queries_accelerator:
  "Cuda_memory_reserved \<in> set (trace (snd (validate T dl s c)))"
  by (simp add: validate_trace)



section \<open>Properties of training\<close>

lemma train_batch_pair:
  "train_batch T c (images, labels) (s, opt, cl, n) =
     (let G = map2 (+) (replicate (length (parameters s)) 0)
                (gradient T c (mode s) (parameters s) images labels)
      in (s\<lparr>parameters := snd (Adam_step T opt (parameters s) G), grad := G,
            trace := trace s @ [Compute_scores (mode s), Compute_loss, Zero_grad, Backward,
                                Optimizer_step]\<rparr>,
          fst (Adam_step T opt (parameters s) G),
          fadd cl (c (forward T (mode s) (parameters s) images) labels),
          n + length labels))"
  by (simp add: train_batch_def zero_grad_def backward_def step_def Let_def split_def)

lemma fold_train_batch_frame:
  "fold (train_batch T c) bs (s, opt, cl, n) = (s', opt', cl', n') \<Longrightarrow>
     mode s' = mode s \<and> placement s' = placement s \<and> n' = n + (\<Sum>b\<leftarrow>bs. length (snd b))"
proof (induction bs arbitrary: s opt cl n)
  case Nil
  then show ?case by simp
next
  case (Cons b bs)
  obtain images labels where b: "b = (images, labels)" by (cases b)
  from Cons.prems show ?case
    unfolding b fold_simps train_batch_pair Let_def
    by (auto dest!: Cons.IH)
qed

lemma epoch_loop_records:
  "epoch_loop T train_dl test_dl c E P es (acc, loss, opt, s) = (Inr (acc', loss'), s') \<Longrightarrow>
     (e \<in> set es \<and> (e mod P = 0 \<or> e = E - 1) \<longrightarrow>
        (\<exists>sv val_loss val_acc. fst (validate T test_dl sv c) = Inr (val_loss, val_acc) \<and>
           acc' e = Some val_acc \<and> loss' e = Some val_loss)) \<and>
     (\<not> (e \<in> set es \<and> (e mod P = 0 \<or> e = E - 1)) \<longrightarrow> acc' e = acc e \<and> loss' e = loss e)"
proof (induction es arbitrary: acc loss opt s)
  case Nil
  then show ?case by simp
next
  case (Cons epoch rest)
  obtain s1 opt1 cl n where f:
    "fold (train_batch T c) (iterate train_dl) (s, opt, Finite 0, 0) = (s1, opt1, cl, n)"
    by (cases "fold (train_batch T c) (iterate train_dl) (s, opt, Finite 0, 0)") auto
  from Cons.prems f have P: "P \<noteq> 0" by (auto split: if_splits)
  show ?case
  proof (cases "epoch mod P = 0 \<or> epoch = E - 1")
    case False
    with Cons.prems f P
    have "epoch_loop T train_dl test_dl c E P rest (acc, loss, opt1, s1) = (Inr (acc', loss'), s')"
      by simp
    from Cons.IH [OF this] False show ?thesis by auto
  next
    case True
    obtain res s2 where v: "validate T test_dl s1 c = (res, s2)"
      by (cases "validate T test_dl s1 c") auto
    from Cons.prems f P True v obtain val_loss val_acc where
      res: "res = Inr (val_loss, val_acc)" and n: "n \<noteq> 0" and
      rec: "epoch_loop T train_dl test_dl c E P rest
              (acc(epoch \<mapsto> val_acc), loss(epoch \<mapsto> val_loss), opt1,
               s2\<lparr>trace := trace s2 @ [Print (Iter_line epoch (fdiv_count cl n) val_loss val_acc)]\<rparr>)
            = (Inr (acc', loss'), s')"
      by (auto split: sum.splits if_splits)
    have here: "fst (validate T test_dl s1 c) = Inr (val_loss, val_acc)"
      using v res by simp
    from Cons.IH [OF rec] here True show ?thesis by (cases "e = epoch") auto
  qed
qed

lemma epoch_loop_mode:
  "epoch_loop T train_dl test_dl c E P es (acc, loss, opt, s) = (Inr r, s') \<Longrightarrow>
     es \<noteq> [] \<Longrightarrow> last es = E - 1 \<Longrightarrow> mode s' = Evaluation"
proof (induction es arbitrary: acc loss opt s)
  case Nil
  then show ?case by simp
next
  case (Cons epoch rest)
  obtain s1 opt1 cl n where f:
    "fold (train_batch T c) (iterate train_dl) (s, opt, Finite 0, 0) = (s1, opt1, cl, n)"
    by (cases "fold (train_batch T c) (iterate train_dl) (s, opt, Finite 0, 0)") auto
  from Cons.prems(1) f have P: "P \<noteq> 0" by (auto split: if_splits)
  show ?case
  proof (cases "rest = []")
    case True
    with Cons.prems(3) have last: "epoch = E - 1" by simp
    obtain res s2 where v: "validate T test_dl s1 c = (res, s2)"
      by (cases "validate T test_dl s1 c") auto
    have "mode s2 = Evaluation"
      using validate_state [of T test_dl s1 c] v by simp
    with Cons.prems(1) f P last v True show ?thesis
      by (auto split: sum.splits if_splits)
  next
    case False
    with Cons.prems(3) have last: "last rest = E - 1" by simp
    show ?thesis
    proof (cases "epoch mod P = 0 \<or> epoch = E - 1")
      case nv: False
      with Cons.prems(1) f P
      have "epoch_loop T train_dl test_dl c E P rest (acc, loss, opt1, s1) = (Inr r, s')"
        by simp
      from Cons.IH [OF this False last] show ?thesis .
    next
      case True
      obtain res s2 where v: "validate T test_dl s1 c = (res, s2)"
        by (cases "validate T test_dl s1 c") auto
      from Cons.prems(1) f P True v obtain val_loss val_acc where
        rec: "epoch_loop T train_dl test_dl c E P rest
                (acc(epoch \<mapsto> val_acc), loss(epoch \<mapsto> val_loss), opt1,
                 s2\<lparr>trace := trace s2 @ [Print (Iter_line epoch (fdiv_count cl n) val_loss val_acc)]\<rparr>)
              = (Inr r, s')"
        by (auto split: sum.splits if_splits)
      from Cons.IH [OF rec False last] show ?thesis .
    qed
  qed
qed


lemma py_range_nonpos: "n \<le> 0 \<Longrightarrow> py_range n = []"
  by (simp add: py_range_def)

lemma set_py_range: "set (py_range n) = {e. 0 \<le> e \<and> e < n}"
proof -
  have "e \<in> int ` {0..<nat n} \<longleftrightarrow> 0 \<le> e \<and> e < n" for e
  proof
    assume "e \<in> int ` {0..<nat n}"
    then show "0 \<le> e \<and> e < n" by auto
  next
    assume "0 \<le> e \<and> e < n"
    then have "nat e \<in> {0..<nat n}" and "e = int (nat e)" by auto
    then show "e \<in> int ` {0..<nat n}" by blast
  qed
  then show ?thesis by (auto simp: py_range_def)
qed

lemma last_py_range: "1 \<le> n \<Longrightarrow> py_range n \<noteq> [] \<and> last (py_range n) = n - 1"
proof -
  assume n: "1 \<le> n"
  then obtain k where k: "nat n = Suc k" by (cases "nat n") auto
  then have "py_range n = map int [0..<k] @ [int k]" by (simp add: py_range_def)
  moreover from k n have "int k = n - 1" by linarith
  ultimately show ?thesis by simp
qed

lemma train_model_records:
  assumes ret: "fst (train_model T train_dl test_dl s c E P lr) = Inr (acc_dict, loss_dict)"
  shows "(0 \<le> e \<and> e < E \<and> (e mod P = 0 \<or> e = E - 1) \<longrightarrow>
           (\<exists>sv val_loss val_acc. fst (validate T test_dl sv c) = Inr (val_loss, val_acc) \<and>
              acc_dict e = Some val_acc \<and> loss_dict e = Some val_loss)) \<and>
         (\<not> (0 \<le> e \<and> e < E \<and> (e mod P = 0 \<or> e = E - 1)) \<longrightarrow>
            acc_dict e = None \<and> loss_dict e = None)"
proof -
  define s2 where "s2 = s\<lparr>mode := Training, placement := select_device T,
        trace := trace s @ [Model_train, Model_to (select_device T)]\<rparr>"
  obtain s' where "epoch_loop T train_dl test_dl c E P (py_range E)
      (Map.empty, Map.empty, Adam T (parameters s2) lr, s2) = (Inr (acc_dict, loss_dict), s')"
    using ret by (cases "train_model T train_dl test_dl s c E P lr")
      (simp add: train_model_def s2_def)
  from epoch_loop_records [OF this, of e] show ?thesis
    by (simp add: set_py_range)
qed

lemma train_model_mode:
  assumes ret: "fst (train_model T train_dl test_dl s c E P lr) = Inr r" and E: "1 \<le> E"
  shows "mode (snd (train_model T train_dl test_dl s c E P lr)) = Evaluation"
proof -
  define s2 where "s2 = s\<lparr>mode := Training, placement := select_device T,
        trace := trace s @ [Model_train, Model_to (select_device T)]\<rparr>"
  have tm: "train_model T train_dl test_dl s c E P lr =
      epoch_loop T train_dl test_dl c E P (py_range E)
        (Map.empty, Map.empty, Adam T (parameters s2) lr, s2)"
    by (simp add: train_model_def s2_def)
  obtain s' where run: "epoch_loop T train_dl test_dl c E P (py_range E)
      (Map.empty, Map.empty, Adam T (parameters s2) lr, s2) = (Inr r, s')"
    using ret unfolding tm
    by (cases "epoch_loop T train_dl test_dl c E P (py_range E)
      (Map.empty, Map.empty, Adam T (parameters s2) lr, s2)") simp
  from epoch_loop_mode [OF run] last_py_range [OF E] have "mode s' = Evaluation" by simp
  with run tm show ?thesis by simp
qed


text \<open>Forward passes in training mode happen in the first epoch only: everything a run
  does from its first \<^verbatim>\<open>model.eval()\<close> on, the batch steps of all later epochs
  included, computes its scores in evaluation mode.\<close>

lemma fold_train_batch_trace:
  "fold (train_batch T c) bs (s, opt, cl, n) = (s', opt', cl', n') \<Longrightarrow>
     trace s' = trace s @ concat (map (\<lambda>b. [Compute_scores (mode s), Compute_loss, Zero_grad,
                                             Backward, Optimizer_step]) bs)"
proof (induction bs arbitrary: s opt cl n)
  case Nil
  then show ?case by simp
next
  case (Cons b bs)
  obtain images labels where b: "b = (images, labels)" by (cases b)
  from Cons.prems show ?case
    unfolding b fold_simps train_batch_pair Let_def
    by (auto dest!: Cons.IH)
qed

lemma epoch_loop_after_validation:
  "mode s = Evaluation \<Longrightarrow>
     \<exists>new. trace (snd (epoch_loop T train_dl test_dl c E P es (acc, loss, opt, s))) = trace s @ new \<and>
           Compute_scores Training \<notin> set new"
proof (induction es arbitrary: acc loss opt s)
  case Nil
  show ?case by simp
next
  case (Cons epoch rest)
  obtain s1 opt1 cl n where f:
    "fold (train_batch T c) (iterate train_dl) (s, opt, Finite 0, 0) = (s1, opt1, cl, n)"
    by (cases "fold (train_batch T c) (iterate train_dl) (s, opt, Finite 0, 0)") auto
  define X where "X = concat (map (\<lambda>b. [Compute_scores Evaluation, Compute_loss, Zero_grad,
                                             Backward, Optimizer_step]) (iterate train_dl))"
  have t1: "trace s1 = trace s @ X" and m1: "mode s1 = Evaluation"
    using fold_train_batch_trace [OF f] fold_train_batch_frame [OF f] Cons.prems
    by (simp_all add: X_def)
  have X: "Compute_scores Training \<notin> set X" by (auto simp: X_def)
  obtain res s2 where v: "validate T test_dl s1 c = (res, s2)"
    by (cases "validate T test_dl s1 c") auto
  obtain Y where t2: "trace s2 = trace s1 @ Y" and Y: "Compute_scores Training \<notin> set Y"
    and m2: "mode s2 = Evaluation"
    using validate_trace [of T test_dl s1 c] validate_state [of T test_dl s1 c] v
    by (auto split: option.splits)
  consider (zero) "P = 0"
    | (skip) "P \<noteq> 0" "\<not> (epoch mod P = 0 \<or> epoch = E - 1)"
    | (raise) "P \<noteq> 0" "epoch mod P = 0 \<or> epoch = E - 1" "(\<exists>e. res = Inl e) \<or> n = 0"
    | (go) val_loss val_acc where "P \<noteq> 0" "epoch mod P = 0 \<or> epoch = E - 1"
        "res = Inr (val_loss, val_acc)" "n \<noteq> 0"
    by (cases res; cases "P = 0"; cases "epoch mod P = 0 \<or> epoch = E - 1"; cases "n = 0") force+
  then show ?case
  proof cases
    case zero
    with f t1 X show ?thesis by simp
  next
    case skip
    from Cons.IH [OF m1, of acc loss opt1] obtain new where
      "trace (snd (epoch_loop T train_dl test_dl c E P rest (acc, loss, opt1, s1))) = trace s1 @ new"
      "Compute_scores Training \<notin> set new" by blast
    with skip f t1 X show ?thesis by simp
  next
    case raise
    then have "snd (epoch_loop T train_dl test_dl c E P (epoch # rest) (acc, loss, opt, s)) = s2"
      using f v by (auto split: sum.splits)
    with t1 t2 X Y show ?thesis by simp
  next
    case go
    define s3 where "s3 = s2\<lparr>trace := trace s2 @ [Print (Iter_line epoch (fdiv_count cl n) val_loss val_acc)]\<rparr>"
    have m3: "mode s3 = Evaluation" using m2 by (simp add: s3_def)
    from Cons.IH [OF m3, of "acc(epoch \<mapsto> val_acc)" "loss(epoch \<mapsto> val_loss)" opt1]
    obtain new where new:
      "trace (snd (epoch_loop T train_dl test_dl c E P rest
          (acc(epoch \<mapsto> val_acc), loss(epoch \<mapsto> val_loss), opt1, s3))) = trace s3 @ new"
      "Compute_scores Training \<notin> set new" by blast
    have "epoch_loop T train_dl test_dl c E P (epoch # rest) (acc, loss, opt, s) =
          epoch_loop T train_dl test_dl c E P rest
            (acc(epoch \<mapsto> val_acc), loss(epoch \<mapsto> val_loss), opt1, s3)"
      using go f v by (simp add: s3_def)
    with new t1 t2 X Y show ?thesis by (simp add: s3_def)
  qed
qed

lemma py_range_Cons: "1 \<le> n \<Longrightarrow> py_range n = 0 # map int [1..<nat n]"
proof -
  assume "1 \<le> n"
  then have "0 < nat n" by simp
  then have "[0..<nat n] = 0 # [1..<nat n]" by (simp add: upt_rec)
  then show ?thesis by (simp add: py_range_def)
qed

lemma train_model_training_mode_first_epoch_only:
  assumes E: "1 \<le> E" and P: "P \<noteq> 0"
  shows "\<exists>rest. trace (snd (train_model T train_dl test_dl s c E P lr)) =
           trace s @ [Model_train, Model_to (select_device T)] @
           concat (map (\<lambda>b. [Compute_scores Training, Compute_loss, Zero_grad, Backward,
                               Optimizer_step]) (iterate train_dl)) @
           Model_eval # rest \<and>
         Compute_scores Training \<notin> set rest"
proof -
  define s0 where "s0 = s\<lparr>mode := Training, placement := select_device T,
        trace := trace s @ [Model_train, Model_to (select_device T)]\<rparr>"
  define X where "X = concat (map (\<lambda>b. [Compute_scores Training, Compute_loss, Zero_grad,
                                             Backward, Optimizer_step]) (iterate train_dl))"
  define es where "es = map int [1..<nat E]"
  have tm: "train_model T train_dl test_dl s c E P lr =
      epoch_loop T train_dl test_dl c E P (0 # es)
        (Map.empty, Map.empty, Adam T (parameters s0) lr, s0)"
    using py_range_Cons [OF E] by (simp add: train_model_def s0_def es_def)
  obtain s1 opt1 cl n where f:
    "fold (train_batch T c) (iterate train_dl) (s0, Adam T (parameters s0) lr, Finite 0, 0) = (s1, opt1, cl, n)"
    by (cases "fold (train_batch T c) (iterate train_dl) (s0, Adam T (parameters s0) lr, Finite 0, 0)") auto
  have t1: "trace s1 = trace s0 @ X"
    using fold_train_batch_trace [OF f] by (simp add: X_def s0_def)
  obtain res s2 where v: "validate T test_dl s1 c = (res, s2)"
    by (cases "validate T test_dl s1 c") auto
  obtain Y where t2: "trace s2 = trace s1 @ Model_eval # Y" and Y: "Compute_scores Training \<notin> set Y"
    and m2: "mode s2 = Evaluation"
    using validate_trace [of T test_dl s1 c] validate_state [of T test_dl s1 c] v
    by (auto split: option.splits)
  have pre: "trace s2 = trace s @ [Model_train, Model_to (select_device T)] @ X @ Model_eval # Y"
    using t1 t2 by (simp add: s0_def)
  show ?thesis
  proof (cases "(\<exists>e. res = Inl e) \<or> n = 0")
    case True
    then have "snd (train_model T train_dl test_dl s c E P lr) = s2"
      unfolding tm using f v P by (auto split: sum.splits)
    with pre Y show ?thesis unfolding X_def by blast
  next
    case False
    then obtain val_loss val_acc where res: "res = Inr (val_loss, val_acc)" and n: "n \<noteq> 0"
      by (cases res) auto
    define s3 where "s3 = s2\<lparr>trace := trace s2 @ [Print (Iter_line 0 (fdiv_count cl n) val_loss val_acc)]\<rparr>"
    have m3: "mode s3 = Evaluation" using m2 by (simp add: s3_def)
    from epoch_loop_after_validation [OF m3, of T train_dl test_dl c E P es
        "Map.empty(0 \<mapsto> val_acc)" "Map.empty(0 \<mapsto> val_loss)" opt1]
    obtain new where new:
      "trace (snd (epoch_loop T train_dl test_dl c E P es
          (Map.empty(0 \<mapsto> val_acc), Map.empty(0 \<mapsto> val_loss), opt1, s3))) = trace s3 @ new"
      "Compute_scores Training \<notin> set new" by blast
    have "train_model T train_dl test_dl s c E P lr =
          epoch_loop T train_dl test_dl c E P es
            (Map.empty(0 \<mapsto> val_acc), Map.empty(0 \<mapsto> val_loss), opt1, s3)"
      unfolding tm using f v P res n by (simp add: s3_def)
    with new pre have "trace (snd (train_model T train_dl test_dl s c E P lr)) =
        trace s @ [Model_train, Model_to (select_device T)] @ X @
          Model_eval # (Y @ Print (Iter_line 0 (fdiv_count cl n) val_loss val_acc) # new)"
      by (simp add: s3_def)
    moreover have "Compute_scores Training \<notin>
        set (Y @ Print (Iter_line 0 (fdiv_count cl n) val_loss val_acc) # new)"
      using Y new(2) by simp
    ultimately show ?thesis unfolding X_def by blast
  qed
qed



section \<open>Concrete runs\<close>

lemma iterate_two_samples: "iterate two_samples = [([0, 1], [0, 1])]"
  by (simp add: iterate_def two_samples_def batches_step collate_def)


lemma nll_zero_pair:
  "nll [Finite 0, Finite 0] 0 = Finite (ln 2)"
  "nll [Finite 0, Finite 0] (Suc 0) = Finite (ln 2)"
  by (simp_all add: nll_def fmax_list_def fsub_def fsum_def)

lemma cel_two:
  "CrossEntropyLoss (map (\<lambda>x. [Finite 0, Finite 0]) [0, Suc 0]) [0, Suc 0] = Finite (ln 2)"
  by (simp add: CrossEntropyLoss_def nll_zero_pair fsum_def)

lemma argmax_zero_pair: "argmax [Finite 0, Finite 0] = 0"
  by (simp add: argmax_def greater_or_nan_def flt_def)




lemma validate_two:
  "validate gpu_machine two_samples fresh_model CrossEntropyLoss =
     (Inr (Finite (ln 2 / 2), 1 / 2),
      fresh_model\<lparr>mode := Evaluation,
        trace := [Model_eval, Cuda_memory_reserved, Print (Cached_line 0),
                  Compute_scores Evaluation, Compute_loss]\<rparr>)"
  using cel_two
  by (simp add: validate_def iterate_two_samples validate_batch_pair gpu_machine_def cpu_machine_def
      fresh_model_def argmax_zero_pair count_equal_def)


lemma mean_two: "mean_per_sample_loss gpu_machine two_samples fresh_model = Finite (ln 2)"
proof -
  have "dataset two_samples = [(0, 0), (1, 1)]" by (simp add: two_samples_def)
  then show ?thesis
    by (simp add: mean_per_sample_loss_def iterate_two_samples gpu_machine_def cpu_machine_def
        fresh_model_def nll_zero_pair fsum_def)
qed




lemma train_two:
  "train_model gpu_machine two_samples two_samples fresh_model CrossEntropyLoss 2 1 (1 / 1000) =
    (Inr ([0 \<mapsto> 1 / 2, 1 \<mapsto> 1 / 2], [0 \<mapsto> Finite (ln 2 / 2), 1 \<mapsto> Finite (ln 2 / 2)]),
     \<lparr>mode = Evaluation, parameters = [-1], grad = [1], placement = Cuda,
      trace = [Model_train, Model_to Cuda,
        Compute_scores Training, Compute_loss, Zero_grad, Backward, Optimizer_step,
        Model_eval, Cuda_memory_reserved, Print (Cached_line 0),
        Compute_scores Evaluation, Compute_loss,
        Print (Iter_line 0 (Finite (ln 2 / 2)) (Finite (ln 2 / 2)) (1 / 2)),
        Compute_scores Evaluation, Compute_loss, Zero_grad, Backward, Optimizer_step,
        Model_eval, Cuda_memory_reserved, Print (Cached_line 0),
        Compute_scores Evaluation, Compute_loss,
        Print (Iter_line 1 (Finite (ln 2 / 2)) (Finite (ln 2 / 2)) (1 / 2))]\<rparr>)"
  using cel_two
  by (simp add: train_model_def py_range_def upt_rec numeral_2_eq_2
      validate_def iterate_two_samples validate_batch_pair train_batch_pair gpu_machine_def
      cpu_machine_def fresh_model_def argmax_zero_pair count_equal_def select_device_def)

lemma train_three:
  "fst (train_model gpu_machine two_samples two_samples fresh_model CrossEntropyLoss 3 2 (1 / 1000))
     = Inr ([0 \<mapsto> 1 / 2, 2 \<mapsto> 1 / 2], [0 \<mapsto> Finite (ln 2 / 2), 2 \<mapsto> Finite (ln 2 / 2)])"
  using cel_two
  by (simp add: train_model_def py_range_def upt_rec numeral_3_eq_3
      validate_def iterate_two_samples validate_batch_pair train_batch_pair gpu_machine_def
      cpu_machine_def fresh_model_def argmax_zero_pair count_equal_def select_device_def)

section \<open>The claims\<close>

subsection \<open>C1: running without an accelerator\<close>




subsection \<open>C2: the mode of the model during training steps\<close>

text \<open>
  C2 says that the model is set to training mode before every epoch's batch loop, so
  that every training batch step runs in training mode. \<open>train_model\<close> calls
  \<^verbatim>\<open>model.train()\<close> once, before the epoch loop; the validation at the end of epoch 0
  switches the model to evaluation mode and nothing switches it back, so that only the
  first epoch trains in training mode (lemma
  \<open>train_model_training_mode_first_epoch_only\<close>). In the run below (two epochs,
  validation after each) the batch step of epoch 0 computes its scores in training
  mode and the batch step of epoch 1 computes them in evaluation mode, then clears the
  gradients, backpropagates and applies the optimizer step.
\<close>

theorem second_epoch_trains_in_evaluation_mode:
  "trace (snd (train_model gpu_machine two_samples two_samples fresh_model CrossEntropyLoss
                 2 1 (1 / 1000))) =
     [Model_train, Model_to Cuda,
      Compute_scores Training, Compute_loss, Zero_grad, Backward, Optimizer_step,
      Model_eval, Cuda_memory_reserved, Print (Cached_line 0),
      Compute_scores Evaluation, Compute_loss,
      Print (Iter_line 0 (Finite (ln 2 / 2)) (Finite (ln 2 / 2)) (1 / 2)),
      Compute_scores Evaluation, Compute_loss, Zero_grad, Backward, Optimizer_step,
      Model_eval, Cuda_memory_reserved, Print (Cached_line 0),
      Compute_scores Evaluation, Compute_loss,
      Print (Iter_line 1 (Finite (ln 2 / 2)) (Finite (ln 2 / 2)) (1 / 2))]"
  by (simp add: train_two)

subsection \<open>C3: the loss that validation returns\<close>

text \<open>
  C3 says that the first value \<open>validate\<close> returns is the mean per-sample loss of the
  pass: the sum of the per-sample losses divided by the number of held-out samples.
  \<open>validate\<close> adds up \<^verbatim>\<open>criterion(preds, labels)\<close>, which is already the mean over
  the batch, and divides the sum of these batch means by the number of samples (lemma
  \<open>validate_value\<close>). With two samples in one batch, each of loss \<open>ln 2\<close>, the mean
  per-sample loss is \<open>ln 2\<close> and \<open>validate\<close> returns \<open>ln 2 / 2\<close>.
\<close>

theorem validate_loss_is_not_the_per_sample_mean:
  "fst (validate gpu_machine two_samples fresh_model CrossEntropyLoss)
     = Inr (Finite (ln 2 / 2), 1 / 2) \<and>
   mean_per_sample_loss gpu_machine two_samples fresh_model = Finite (ln 2) \<and>
   Finite (ln 2 / 2) \<noteq> Finite (ln 2)"
  by (simp add: validate_two mean_two)

subsection \<open>C4: the order of a training batch step\<close>

text \<open>
  C4: in every batch step of \<open>train_model\<close> the operations occur in the order compute
  scores, compute loss, clear the gradients, backpropagate, optimizer step; the
  gradients are cleared before backpropagation, so nothing accumulated earlier leaks
  into the update. The first conjunct gives the whole outcome of a step: the scores are
  those of the forward pass on this batch and the loss added to the running loss is
  the criterion on them; the gradients after the step are this batch's, added to
  zeros; the new parameters and the new optimizer state are the optimizer's update
  from exactly those gradients; and the effects are, in this order, scores, loss,
  clearing, backpropagation, optimizer step. The second conjunct says that the outcome
  is the same whatever gradients \<open>stale\<close> were accumulated before the step.
\<close>

theorem train_batch_order:
  "train_batch T criterion (images, labels) (s, opt, curr_loss, N) =
     (let preds = forward T (mode s) (parameters s) images;
          loss = criterion preds labels;
          g = map2 (+) (replicate (length (parameters s)) 0)
                (gradient T criterion (mode s) (parameters s) images labels)
      in (s\<lparr>parameters := snd (Adam_step T opt (parameters s) g),
            grad := g,
            trace := trace s @ [Compute_scores (mode s), Compute_loss, Zero_grad, Backward,
                                Optimizer_step]\<rparr>,
          fst (Adam_step T opt (parameters s) g),
          fadd curr_loss loss,
          N + length labels)) \<and>
   train_batch T criterion (images, labels) (s\<lparr>grad := stale\<rparr>, opt, curr_loss, N) =
     train_batch T criterion (images, labels) (s, opt, curr_loss, N)"
  by (simp add: train_batch_pair Let_def)

subsection \<open>C5: which epochs are recorded\<close>

text \<open>
  C5: for an epoch count \<open>E \<ge> 1\<close>, a cadence \<open>P \<ge> 1\<close> and an epoch \<open>e\<close> in
  \<open>[0, E - 1]\<close>, a completed run of \<open>train_model\<close> has validated at epoch \<open>e\<close> and
  recorded the two outputs under key \<open>e\<close> if and only if \<open>e mod P = 0\<close> or
  \<open>e = E - 1\<close>; the other epochs have no entry. The third conjunct says that the
  entries of a recorded epoch are the loss and the accuracy returned by one call of
  \<open>validate\<close> on the held-out loader.
\<close>

theorem metrics_recorded_iff:
  assumes "fst (train_model T train_dl test_dl s criterion E P lr) = Inr (acc_dict, loss_dict)"
    and "1 \<le> E" and "1 \<le> P" and "0 \<le> e" and "e \<le> E - 1"
  shows "(e \<in> dom acc_dict \<longleftrightarrow> e mod P = 0 \<or> e = E - 1) \<and>
         (e \<in> dom loss_dict \<longleftrightarrow> e mod P = 0 \<or> e = E - 1) \<and>
         (e mod P = 0 \<or> e = E - 1 \<longrightarrow>
            (\<exists>sv val_loss val_acc.
               fst (validate T test_dl sv criterion) = Inr (val_loss, val_acc) \<and>
               acc_dict e = Some val_acc \<and> loss_dict e = Some val_loss))"
  using train_model_records [OF assms(1), of e] assms(4,5) by (auto simp: dom_def)

text \<open>Three epochs with cadence 2: epochs 0 and 2 are recorded, epoch 1 is not.\<close>

theorem metrics_recorded_iff_witness:
  "fst (train_model gpu_machine two_samples two_samples fresh_model CrossEntropyLoss 3 2 (1 / 1000))
     = Inr ([0 \<mapsto> 1 / 2, 2 \<mapsto> 1 / 2], [0 \<mapsto> Finite (ln 2 / 2), 2 \<mapsto> Finite (ln 2 / 2)]) \<and>
   (1::int) \<notin> dom [0 \<mapsto> 1 / 2 :: real, 2 \<mapsto> 1 / 2] \<and>
   (1::int) \<notin> dom [0 \<mapsto> Finite (ln 2 / 2), 2 \<mapsto> Finite (ln 2 / 2)] \<and>
   (2::int) \<in> dom [0 \<mapsto> 1 / 2 :: real, 2 \<mapsto> 1 / 2] \<and>
   (2::int) \<in> dom [0 \<mapsto> Finite (ln 2 / 2), 2 \<mapsto> Finite (ln 2 / 2)]"
proof -
  have E: "(1::int) \<le> 3" and P: "(1::int) \<le> 2" by simp_all
  have "(1::int) \<in> dom [0 \<mapsto> 1 / 2 :: real, 2 \<mapsto> 1 / 2] \<longleftrightarrow> (1::int) mod 2 = 0 \<or> (1::int) = 3 - 1"
       "(1::int) \<in> dom [0 \<mapsto> Finite (ln 2 / 2), 2 \<mapsto> Finite (ln 2 / 2)] \<longleftrightarrow> (1::int) mod 2 = 0 \<or> (1::int) = 3 - 1"
    using metrics_recorded_iff [OF train_three E P, of 1] by simp_all
  moreover have
       "(2::int) \<in> dom [0 \<mapsto> 1 / 2 :: real, 2 \<mapsto> 1 / 2] \<longleftrightarrow> (2::int) mod 2 = 0 \<or> (2::int) = 3 - 1"
       "(2::int) \<in> dom [0 \<mapsto> Finite (ln 2 / 2), 2 \<mapsto> Finite (ln 2 / 2)] \<longleftrightarrow> (2::int) mod 2 = 0 \<or> (2::int) = 3 - 1"
    using metrics_recorded_iff [OF train_three E P, of 2] by simp_all
  ultimately show ?thesis using train_three by simp
qed

subsection \<open>C6: one pass of the batch iterator\<close>

text \<open>
  C6: for every batch size \<open>B \<ge> 1\<close> and every dataset of \<open>S \<ge> 0\<close> samples, a pass of
  either loader built by \<open>create_dataloaders\<close> yields exactly \<open>ceil(S/B)\<close> batches, in
  the dataset's order with every sample exactly once (the batches put end to end are
  the dataset), every batch but the last of exactly \<open>B\<close> samples and the last of at
  least one and at most \<open>B\<close>.
\<close>

theorem batch_iterator_full_pass:
  assumes "1 \<le> B"
  shows "\<exists>train_dl test_dl.
           create_dataloaders train_data test_data B pin = Inr (train_dl, test_dl) \<and>
           dataset train_dl = train_data \<and> dataset test_dl = test_data \<and>
           (\<forall>dl\<in>{train_dl, test_dl}.
              length (iterate dl) = nat \<lceil>real (length (dataset dl)) / real_of_int B\<rceil> \<and>
              concat (map samples_of (iterate dl)) = dataset dl \<and>
              (\<forall>b\<in>set (butlast (iterate dl)). length (snd b) = nat B) \<and>
              (\<forall>b\<in>set (iterate dl). 0 < length (snd b) \<and> length (snd b) \<le> nat B))"
proof -
  define train_dl where "train_dl = \<lparr>dataset = train_data, batch_size = B, pin_memory = pin\<rparr>"
  define test_dl where "test_dl = \<lparr>dataset = test_data, batch_size = B, pin_memory = pin\<rparr>"
  have made: "create_dataloaders train_data test_data B pin = Inr (train_dl, test_dl)"
    using assms by (simp add: create_dataloaders_def DataLoader_ok train_dl_def test_dl_def)
  have tr: "0 < batch_size train_dl" "batch_size train_dl = B" "dataset train_dl = train_data"
    using assms by (simp_all add: train_dl_def)
  have te: "0 < batch_size test_dl" "batch_size test_dl = B" "dataset test_dl = test_data"
    using assms by (simp_all add: test_dl_def)
  have pass_tr:
    "length (iterate train_dl) = nat \<lceil>real (length (dataset train_dl)) / real_of_int B\<rceil> \<and>
     concat (map samples_of (iterate train_dl)) = dataset train_dl \<and>
     (\<forall>b\<in>set (butlast (iterate train_dl)). length (snd b) = nat B) \<and>
     (\<forall>b\<in>set (iterate train_dl). 0 < length (snd b) \<and> length (snd b) \<le> nat B)"
    using iterate_pass [OF tr(1)] unfolding tr(2) by blast
  have pass_te:
    "length (iterate test_dl) = nat \<lceil>real (length (dataset test_dl)) / real_of_int B\<rceil> \<and>
     concat (map samples_of (iterate test_dl)) = dataset test_dl \<and>
     (\<forall>b\<in>set (butlast (iterate test_dl)). length (snd b) = nat B) \<and>
     (\<forall>b\<in>set (iterate test_dl). 0 < length (snd b) \<and> length (snd b) \<le> nat B)"
    using iterate_pass [OF te(1)] unfolding te(2) by blast
  have both: "\<forall>dl\<in>{train_dl, test_dl}.
              length (iterate dl) = nat \<lceil>real (length (dataset dl)) / real_of_int B\<rceil> \<and>
              concat (map samples_of (iterate dl)) = dataset dl \<and>
              (\<forall>b\<in>set (butlast (iterate dl)). length (snd b) = nat B) \<and>
              (\<forall>b\<in>set (iterate dl). 0 < length (snd b) \<and> length (snd b) \<le> nat B)"
    using pass_tr pass_te by blast
  from made tr(3) te(3) both show ?thesis by blast
qed

text \<open>Five training samples and no held-out sample, in batches of two.\<close>

theorem batch_iterator_full_pass_witness:
  "(1::int) \<le> 2 \<and>
   (\<exists>train_dl test_dl.
      create_dataloaders [(10::nat, 0), (11, 1), (12, 0), (13, 1), (14, 0)] [] 2 True
        = Inr (train_dl, test_dl) \<and>
      iterate train_dl = [([10, 11], [0, 1]), ([12, 13], [0, 1]), ([14], [0])] \<and>
      iterate test_dl = [] \<and>
      length (iterate train_dl) = nat \<lceil>real (5::nat) / real_of_int 2\<rceil>)"
proof -
  have B: "(1::int) \<le> 2" by simp
  from batch_iterator_full_pass [OF B, of "[(10::nat, 0), (11, 1), (12, 0), (13, 1), (14, 0)]" "[]" True]
  obtain train_dl test_dl where
    made: "create_dataloaders [(10::nat, 0), (11, 1), (12, 0), (13, 1), (14, 0)] [] 2 True
             = Inr (train_dl, test_dl)"
    and len: "length (iterate train_dl) = nat \<lceil>real (length (dataset train_dl)) / real_of_int 2\<rceil>"
    and data: "dataset train_dl = [(10::nat, 0), (11, 1), (12, 0), (13, 1), (14, 0)]"
    by blast
  from made have dl:
    "train_dl = \<lparr>dataset = [(10::nat, 0), (11, 1), (12, 0), (13, 1), (14, 0)], batch_size = 2,
                 pin_memory = True\<rparr>"
    "test_dl = \<lparr>dataset = [], batch_size = 2, pin_memory = True\<rparr>"
    by (simp_all add: create_dataloaders_def DataLoader_def)
  have it: "iterate train_dl = [([10, 11], [0, 1]), ([12, 13], [0, 1]), ([14], [0])]"
    unfolding dl by (simp add: iterate_def batches_step collate_def)
  have ie: "iterate test_dl = []"
    unfolding dl by (simp add: iterate_def)
  from len data have "length (iterate train_dl) = nat \<lceil>real (5::nat) / real_of_int 2\<rceil>"
    by simp
  with B made it ie show ?thesis by blast
qed

subsection \<open>C7: zero epochs\<close>

text \<open>
  C7: with an epoch count of 0, \<open>train_model\<close> returns two empty records and a model
  whose parameters (and gradients) are what they were; the only effects are the two
  calls before the loop, \<^verbatim>\<open>model.train()\<close> and \<^verbatim>\<open>model.to(device)\<close>, so there is no
  validation and nothing is printed.
\<close>

theorem train_model_zero_epochs:
  "train_model T train_dl test_dl s criterion 0 print_freq lr =
     (Inr (Map.empty, Map.empty),
      s\<lparr>mode := Training, placement := select_device T,
        trace := trace s @ [Model_train, Model_to (select_device T)]\<rparr>)"
  by (simp add: train_model_def py_range_def)

subsection \<open>C8: the range of the validation results\<close>




subsection \<open>C9: validation leaves parameters and gradients alone\<close>

text \<open>
  C9: \<open>validate\<close> changes no model parameter and no parameter gradient: both are the
  same after the call as before it, whether it returns or raises, and none of its
  effects clears gradients, backpropagates or applies an optimizer step.
\<close>

theorem validate_frame:
  "parameters (snd (validate T test_dl s criterion)) = parameters s \<and>
   grad (snd (validate T test_dl s criterion)) = grad s \<and>
   (\<exists>new. trace (snd (validate T test_dl s criterion)) = trace s @ new \<and>
          Zero_grad \<notin> set new \<and> Backward \<notin> set new \<and> Optimizer_step \<notin> set new)"
proof -
  let ?new = "[Model_eval, Cuda_memory_reserved] @
       (case cuda_memory_reserved T of
          None \<Rightarrow> []
        | Some r \<Rightarrow> Print (Cached_line r) #
            concat (map (\<lambda>b. [Compute_scores Evaluation, Compute_loss]) (iterate test_dl)))"
  have "trace (snd (validate T test_dl s criterion)) = trace s @ ?new"
    by (rule validate_trace)
  moreover have "Zero_grad \<notin> set ?new \<and> Backward \<notin> set ?new \<and> Optimizer_step \<notin> set ?new"
    by (auto split: option.splits)
  ultimately have "\<exists>new. trace (snd (validate T test_dl s criterion)) = trace s @ new \<and>
          Zero_grad \<notin> set new \<and> Backward \<notin> set new \<and> Optimizer_step \<notin> set new"
    by blast
  with validate_state [of T test_dl s criterion] show ?thesis by simp
qed

subsection \<open>C10: the mode of the returned model\<close>

text \<open>
  C10: for every epoch count \<open>E \<ge> 1\<close>, the model that \<open>train_model\<close> returns is in
  evaluation mode: the last epoch always validates, validation switches the model to
  evaluation mode, and \<open>train_model\<close> does not switch it back. Lemma
  \<open>train_model_returns\<close> says when the run does return.
\<close>

theorem train_model_returns_in_evaluation_mode:
  assumes "1 \<le> E"
    and "fst (train_model T train_dl test_dl s criterion E print_freq lr) = Inr (acc_dict, loss_dict)"
  shows "mode (snd (train_model T train_dl test_dl s criterion E print_freq lr)) = Evaluation"
  using train_model_mode [OF assms(2) assms(1)] .

theorem train_model_returns_in_evaluation_mode_witness:
  "(1::int) \<le> 2 \<and>
   fst (train_model gpu_machine two_samples two_samples fresh_model CrossEntropyLoss 2 1 (1 / 1000))
     = Inr ([0 \<mapsto> 1 / 2, 1 \<mapsto> 1 / 2], [0 \<mapsto> Finite (ln 2 / 2), 1 \<mapsto> Finite (ln 2 / 2)]) \<and>
   mode fresh_model = Training \<and>
   mode (snd (train_model gpu_machine two_samples two_samples fresh_model CrossEntropyLoss
                2 1 (1 / 1000))) = Evaluation"
proof -
  have E: "(1::int) \<le> 2" by simp
  have ret: "fst (train_model gpu_machine two_samples two_samples fresh_model CrossEntropyLoss
                    2 1 (1 / 1000))
             = Inr ([0 \<mapsto> 1 / 2, 1 \<mapsto> 1 / 2], [0 \<mapsto> Finite (ln 2 / 2), 1 \<mapsto> Finite (ln 2 / 2)])"
    by (simp add: train_two)
  from train_model_returns_in_evaluation_mode [OF E ret] E ret show ?thesis
    by (simp add: fresh_model_def)
qed

end
